theory Spec2Isabelle
  imports Complex_Main "HOL-Library.Product_Lexorder" "HOL-Library.Multiset"
begin

section \<open>Data model of the heat-risk pipeline\<close>

text \<open>
  The pipeline of \<^verbatim>\<open>src/ai/weighted_heat_risk_pipeline.py\<close> works on a pandas
  table. A numeric cell is a real number or NaN; NaN (an empty CSV cell, or text that
  \<^verbatim>\<open>pd.to_numeric(errors="coerce")\<close> cannot read) is \<open>None\<close>. Arithmetic is over
  the reals: rounding of binary floating point is outside this model.

  The identifier and the date of a row are values of any linearly ordered type, since
  the code only compares them (\<^verbatim>\<open>sort_values\<close>, \<^verbatim>\<open>groupby\<close>, \<^verbatim>\<open>max\<close>,
  \<^verbatim>\<open>==\<close>).
\<close>

type_synonym num = "real option"

record ('u, 'd) row =
  barangay_id :: 'u
  date :: 'd
  temperature :: num
  facility_distance :: num
  facility_score :: num
  density :: num
  population :: num
  temp_rolling :: num
  cluster :: nat
  risk_level :: nat

text \<open>
  A table is its list of column names (\<^verbatim>\<open>df.columns\<close>) and its rows in index
  order. A field of a row carries data only when its column is listed.
\<close>

record ('u, 'd) frame =
  columns :: "string list"
  rows :: "('u, 'd) row list"

datatype error = ValueError string | KeyError string | TypeError string

text \<open>\<^verbatim>\<open>df[name] = values\<close>: the column is appended when it is new, replaced in place otherwise.\<close>

definition assign_column ::
  "string \<Rightarrow> ('u, 'd) row list \<Rightarrow> ('u, 'd) frame \<Rightarrow> ('u, 'd) frame" where
  "assign_column name new_rows df =
     df\<lparr>columns := (if name \<in> set (columns df) then columns df else columns df @ [name]),
        rows := new_rows\<rparr>"

subsection \<open>Schema normalizer: \<^verbatim>\<open>load_data\<close>\<close>

text \<open>
  \<^verbatim>\<open>load_data\<close> after \<^verbatim>\<open>pd.read_csv\<close>; the argument is the table that was read.
  The loop over the required names raises at the first one that is missing and skips
  \<^verbatim>\<open>facility_distance\<close>, which has an alias.
\<close>

fun missing_required :: "string list \<Rightarrow> string list \<Rightarrow> string option" where
  "missing_required cols [] = None"
| "missing_required cols (col # rest) =
     (if col \<notin> set cols \<and> col \<noteq> ''facility_distance'' then Some col
      else missing_required cols rest)"

text \<open>Lines 35 to 39: the optional columns get their defaults when they are absent.\<close>

definition load_data_defaults :: "('u, 'd) frame \<Rightarrow> ('u, 'd) frame" where
  "load_data_defaults df =
     (let df1 = (if ''density'' \<notin> set (columns df)
                 then assign_column ''density''
                        (map (\<lambda>r. r\<lparr>density := Some 0\<rparr>) (rows df)) df
                 else df)
      in if ''population'' \<notin> set (columns df1)
         then assign_column ''population''
                (map (\<lambda>r. r\<lparr>population := Some 0\<rparr>) (rows df1)) df1
         else df1)"

definition load_data :: "('u, 'd) frame \<Rightarrow> error + ('u, 'd) frame" where
  "load_data df =
     (case missing_required (columns df)
             [''barangay_id'', ''date'', ''temperature'', ''facility_distance''] of
        Some col \<Rightarrow> Inl (ValueError (''Missing required column: '' @ col))
      | None \<Rightarrow>
          if ''facility_distance'' \<notin> set (columns df) \<and> ''facility_score'' \<in> set (columns df)
          then Inr (load_data_defaults
                      (assign_column ''facility_distance''
                         (map (\<lambda>r. r\<lparr>facility_distance := facility_score r\<rparr>) (rows df)) df))
          else if ''facility_distance'' \<notin> set (columns df)
          then Inl (ValueError ''Missing column: facility_distance or facility_score'')
          else Inr (load_data_defaults df))"

subsection \<open>Temporal smoother\<close>

text \<open>The values of a column that are not NaN, in order.\<close>

fun present :: "num list \<Rightarrow> real list" where
  "present [] = []"
| "present (None # xs) = present xs"
| "present (Some x # xs) = x # present xs"

text \<open>The mean pandas computes: NaN cells are skipped, and a series without any value has mean NaN.\<close>

definition nanmean :: "num list \<Rightarrow> num" where
  "nanmean xs =
     (if present xs = [] then None
      else Some (sum_list (present xs) / real (length (present xs))))"

text \<open>
  \<^verbatim>\<open>x.rolling(window=w, min_periods=1).mean()\<close>: at position \<open>j\<close> the window is the
  \<open>w\<close> positions ending at \<open>j\<close>, cut at the start of the series; the result is NaN when
  the window holds no value.
\<close>

definition rolling_mean :: "nat \<Rightarrow> num list \<Rightarrow> num list" where
  "rolling_mean w xs =
     map (\<lambda>j. nanmean (drop (Suc j - w) (take (Suc j) xs))) [0..<length xs]"

text \<open>
  \<^verbatim>\<open>df.groupby(key)[val].transform(f)\<close>: \<open>f\<close> is applied to the series of each group
  (the rows with that key, in table order), and every row receives the entry of its
  group's result at its own position in the group.
\<close>

definition groupby_transform ::
  "('r \<Rightarrow> 'k) \<Rightarrow> ('r \<Rightarrow> num) \<Rightarrow> (num list \<Rightarrow> num list) \<Rightarrow> 'r list \<Rightarrow> num list" where
  "groupby_transform key val f rs =
     map (\<lambda>i. f (map val (filter (\<lambda>r. key r = key (rs ! i)) rs))
                ! length (filter (\<lambda>r. key r = key (rs ! i)) (take i rs)))
         [0..<length rs]"

text \<open>
  Lines 53 to 58, the column \<^verbatim>\<open>temp_rolling\<close> of the sorted table: \<open>rolling\<close> is the
  outcome of \<^verbatim>\<open>use_rolling and df["date"].nunique() > 1\<close>.
\<close>

definition temp_rolling_column ::
  "bool \<Rightarrow> nat \<Rightarrow> ('u, 'd) row list \<Rightarrow> num list" where
  "temp_rolling_column rolling window sorted_rows =
     (if rolling
      then groupby_transform barangay_id temperature (rolling_mean window) sorted_rows
      else map temperature sorted_rows)"

subsection \<open>Feature selector and scaler\<close>

type_synonym matrix = "num list list"

text \<open>\<^verbatim>\<open>df[name]\<close> read row by row, for the numeric columns of the table.\<close>

definition cell :: "string \<Rightarrow> ('u, 'd) row \<Rightarrow> num" where
  "cell name r =
     (if name = ''temperature'' then temperature r
      else if name = ''facility_distance'' then facility_distance r
      else if name = ''facility_score'' then facility_score r
      else if name = ''density'' then density r
      else if name = ''population'' then population r
      else if name = ''temp_rolling'' then temp_rolling r
      else None)"

definition numeric_columns :: "string list" where
  "numeric_columns = [''temperature'', ''facility_distance'', ''facility_score'',
                      ''density'', ''population'', ''temp_rolling'']"

definition column :: "matrix \<Rightarrow> nat \<Rightarrow> num list" where
  "column X j = map (\<lambda>xr. xr ! j) X"

text \<open>\<^verbatim>\<open>features.fillna(features.mean(numeric_only=True))\<close> on a matrix of \<open>k\<close> columns.\<close>

definition fillna_mean :: "nat \<Rightarrow> matrix \<Rightarrow> matrix" where
  "fillna_mean k X =
     (let means = map (\<lambda>j. nanmean (column X j)) [0..<k]
      in map (\<lambda>xr. map2 (\<lambda>x m. case x of None \<Rightarrow> m | Some v \<Rightarrow> Some v) xr means) X)"

text \<open>
  scikit-learn's \<^verbatim>\<open>MinMaxScaler().fit_transform\<close> with the feature range (0, 1). Per
  column: \<^verbatim>\<open>data_min\<close> and \<^verbatim>\<open>data_max\<close> skip NaN, a zero \<^verbatim>\<open>data_range\<close> is
  replaced by 1, \<^verbatim>\<open>scale_ = 1 / data_range\<close>, \<^verbatim>\<open>min_ = 0 - data_min * scale_\<close>, and a
  cell becomes \<^verbatim>\<open>x * scale_ + min_\<close>. NaN cells stay NaN, and a column of NaN only has
  NaN parameters. An array without rows is refused.
\<close>

definition nanmin :: "num list \<Rightarrow> num" where
  "nanmin xs = (case present xs of [] \<Rightarrow> None | v # vs \<Rightarrow> Some (fold min vs v))"

definition nanmax :: "num list \<Rightarrow> num" where
  "nanmax xs = (case present xs of [] \<Rightarrow> None | v # vs \<Rightarrow> Some (fold max vs v))"

definition handle_zeros_in_scale :: "real \<Rightarrow> real" where
  "handle_zeros_in_scale s = (if s = 0 then 1 else s)"

definition scaler_params :: "num list \<Rightarrow> (real \<times> real) option" where
  "scaler_params xs =
     (case (nanmin xs, nanmax xs) of
        (Some data_min, Some data_max) \<Rightarrow>
          (let data_range = data_max - data_min;
               scale = 1 / handle_zeros_in_scale data_range
           in Some (scale, 0 - data_min * scale))
      | _ \<Rightarrow> None)"

definition scale_cell :: "(real \<times> real) option \<Rightarrow> num \<Rightarrow> num" where
  "scale_cell p x =
     (case (p, x) of (Some (scale, min'), Some v) \<Rightarrow> Some (v * scale + min') | _ \<Rightarrow> None)"

definition fit_transform :: "nat \<Rightarrow> matrix \<Rightarrow> error + matrix" where
  "fit_transform k X =
     (if X = [] then Inl (ValueError ''Found array with 0 sample(s) while a minimum of 1 is required by MinMaxScaler'')
      else
        (let params = map (\<lambda>j. scaler_params (column X j)) [0..<k]
         in Inr (map (\<lambda>xr. map2 scale_cell params xr) X)))"

text \<open>\<^verbatim>\<open>pd.to_numeric(..., errors="coerce").fillna(0)\<close> on one cell.\<close>

definition to_numeric_fillna :: "num \<Rightarrow> num" where
  "to_numeric_fillna x = (case x of None \<Rightarrow> Some 0 | Some v \<Rightarrow> Some v)"

text \<open>\<^verbatim>\<open>df["density"].gt(0).any()\<close>.\<close>

definition density_gt_0_any :: "('u, 'd) row list \<Rightarrow> bool" where
  "density_gt_0_any rs =
     list_ex (\<lambda>r. case density r of None \<Rightarrow> False | Some x \<Rightarrow> 0 < x) rs"

text \<open>Lines 71 and 72: the feature matrix, assembled and imputed.\<close>

definition assembled_features :: "string list \<Rightarrow> ('u, 'd) row list \<Rightarrow> matrix" where
  "assembled_features feature_cols rs =
     fillna_mean (length feature_cols) (map (\<lambda>r. map (\<lambda>c. cell c r) feature_cols) rs)"

text \<open>Lines 73 and 74: the scaled matrix.\<close>

definition scaled_features :: "string list \<Rightarrow> ('u, 'd) row list \<Rightarrow> error + matrix" where
  "scaled_features feature_cols rs =
     fit_transform (length feature_cols) (assembled_features feature_cols rs)"

text \<open>
  \<^verbatim>\<open>prepare_features\<close>. A column that is read and absent raises \<^verbatim>\<open>KeyError\<close>; a
  window below 1 is refused by \<^verbatim>\<open>rolling\<close> when the smoothing branch runs.
\<close>

definition prepare_features ::
  "('u::linorder, 'd::linorder) frame \<Rightarrow> bool \<Rightarrow> int \<Rightarrow>
     error + (('u, 'd) frame \<times> matrix \<times> string list \<times> real list)" where
  "prepare_features df use_rolling window =
     (if ''barangay_id'' \<notin> set (columns df) then Inl (KeyError ''barangay_id'')
      else if ''date'' \<notin> set (columns df) then Inl (KeyError ''date'')
      else if ''temperature'' \<notin> set (columns df) then Inl (KeyError ''temperature'')
      else
        (let sorted_rows = sort_key (\<lambda>r. (barangay_id r, date r)) (rows df);
             rolling = (use_rolling \<and> 1 < length (remdups (map date sorted_rows)))
         in
           if rolling \<and> window < 0
           then Inl (ValueError ''window must be an integer 0 or greater'')
           else if rolling \<and> window < 1
           then Inl (ValueError ''min_periods 1 must be <= window 0'')
           else if ''facility_distance'' \<notin> set (columns df)
           then Inl (KeyError ''facility_distance'')
           else if ''density'' \<notin> set (columns df) then Inl (KeyError ''density'')
           else
             (let df1 = assign_column ''temp_rolling''
                          (map2 (\<lambda>r v. r\<lparr>temp_rolling := v\<rparr>) sorted_rows
                             (temp_rolling_column rolling (nat window) sorted_rows)) df;
                  df2 = assign_column ''facility_score''
                          (map (\<lambda>r. r\<lparr>facility_score := facility_distance r\<rparr>) (rows df1)) df1;
                  df3 = assign_column ''density''
                          (map (\<lambda>r. r\<lparr>density := to_numeric_fillna (density r)\<rparr>) (rows df2))
                          df2;
                  has_density = density_gt_0_any (rows df3);
                  feature_cols =
                    (if has_density then [''temp_rolling'', ''facility_score'', ''density'']
                     else [''temp_rolling'', ''facility_score'']);
                  weights = (if has_density then [1 / 3, 1 / 3, 1 / 3] else [1 / 2, 1 / 2])
              in case scaled_features feature_cols (rows df3) of
                   Inl e \<Rightarrow> Inl e
                 | Inr features_scaled \<Rightarrow> Inr (df3, features_scaled, feature_cols, weights))))"

subsection \<open>Weighted cluster assigner and risk level mapper\<close>

text \<open>
  \<^verbatim>\<open>Series.rank(method="first", ascending=True)\<close>: the rank of an entry is one more
  than the number of entries that are smaller, or equal and earlier in the series.
\<close>

definition rank_first :: "'a::linorder list \<Rightarrow> nat list" where
  "rank_first ss =
     map (\<lambda>i. Suc (length (filter (\<lambda>j. ss ! j < ss ! i \<or> (ss ! j = ss ! i \<and> j < i))
                                   [0..<length ss])))
         [0..<length ss]"

text \<open>\<^verbatim>\<open>cluster_means.dot(weights)\<close> on one row of means: NaN as soon as one mean is NaN.\<close>

definition dot :: "num list \<Rightarrow> real list \<Rightarrow> num" where
  "dot ms ws =
     (if list_all (\<lambda>m. m \<noteq> None) ms then Some (sum_list (map2 (*) (present ms) ws))
      else None)"

text \<open>
  One row of \<^verbatim>\<open>df.groupby("cluster")[feature_cols].mean()\<close>, and its severity score.
  The means are taken over the columns of the table, as the code does.
\<close>

definition cluster_means :: "string list \<Rightarrow> ('u, 'd) row list \<Rightarrow> nat \<Rightarrow> num list" where
  "cluster_means feature_cols rs c =
     map (\<lambda>f. nanmean (map (cell f) (filter (\<lambda>r. cluster r = c) rs))) feature_cols"

definition severity_score ::
  "string list \<Rightarrow> real list \<Rightarrow> ('u, 'd) row list \<Rightarrow> nat \<Rightarrow> num" where
  "severity_score feature_cols weights rs c = dot (cluster_means feature_cols rs c) weights"

text \<open>\<^verbatim>\<open>df["cluster"].map(lambda x: int(cluster_rank[x]))\<close>, a missing key raising \<^verbatim>\<open>KeyError\<close>.\<close>

fun map_cluster_rank ::
  "(nat \<times> nat) list \<Rightarrow> ('u, 'd) row list \<Rightarrow> error + ('u, 'd) row list" where
  "map_cluster_rank cluster_rank [] = Inr []"
| "map_cluster_rank cluster_rank (r # rs) =
     (case map_of cluster_rank (cluster r) of
        None \<Rightarrow> Inl (KeyError ''cluster'')
      | Some level \<Rightarrow>
          (case map_cluster_rank cluster_rank rs of
             Inl e \<Rightarrow> Inl e
           | Inr rs' \<Rightarrow> Inr (r\<lparr>risk_level := level\<rparr> # rs')))"

text \<open>
  \<^verbatim>\<open>run_kmeans_and_risk_levels\<close>. scikit-learn's
  \<^verbatim>\<open>KMeans(n_clusters, random_state).fit_predict\<close> is the parameter \<open>fit_predict\<close>: it
  raises or returns one label per sample. \<^verbatim>\<open>groupby\<close> lists the realized labels in
  ascending order. The feature names are read among the numeric columns of the table;
  a name outside them is not covered by this model and is reported as an error.
\<close>

definition run_kmeans_and_risk_levels ::
  "(int \<Rightarrow> int \<Rightarrow> matrix \<Rightarrow> error + nat list) \<Rightarrow> ('u, 'd) frame \<Rightarrow> matrix \<Rightarrow>
     string list \<Rightarrow> real list \<Rightarrow> int \<Rightarrow> int \<Rightarrow> error + ('u, 'd) frame" where
  "run_kmeans_and_risk_levels fit_predict df features_scaled feature_cols weights
       n_clusters random_state =
     (case fit_predict n_clusters random_state features_scaled of
        Inl e \<Rightarrow> Inl e
      | Inr labels \<Rightarrow>
          if length labels \<noteq> length (rows df)
          then Inl (ValueError ''Length of values does not match length of index'')
          else
            (let df1 = assign_column ''cluster''
                         (map2 (\<lambda>r c. r\<lparr>cluster := c\<rparr>) (rows df) labels) df
             in
               if \<not> set feature_cols \<subseteq> set (columns df1)
               then Inl (KeyError ''Columns not found'')
               else if \<not> set feature_cols \<subseteq> set numeric_columns
               then Inl (TypeError ''not a numeric column'')
               else if length weights \<noteq> length feature_cols
               then Inl (ValueError ''Dot product shape mismatch'')
               else
                 (let clusters = sort (remdups labels);
                      severity = map (severity_score feature_cols weights (rows df1)) clusters
                  in
                    if \<not> list_all (\<lambda>s. s \<noteq> None) severity
                    then Inl (ValueError ''Cannot convert non-finite values (NA or inf) to integer'')
                    else
                      (let cluster_rank = zip clusters (rank_first (present severity))
                       in case map_cluster_rank cluster_rank (rows df1) of
                            Inl e \<Rightarrow> Inl e
                          | Inr rs \<Rightarrow> Inr (assign_column ''risk_level'' rs df1)))))"

subsection \<open>The run: \<^verbatim>\<open>main\<close>\<close>

text \<open>\<^verbatim>\<open>Series.max()\<close>; an empty series has no maximum.\<close>

definition series_max :: "'a::linorder list \<Rightarrow> 'a option" where
  "series_max xs = (case xs of [] \<Rightarrow> None | x # rest \<Rightarrow> Some (fold max rest x))"

text \<open>
  \<^verbatim>\<open>main\<close> from the table read at the input path to the report that is written:
  \<open>no_rolling\<close>, \<open>window\<close> and \<open>clusters\<close> are the command line options, and the random
  state keeps its default 42. The upload that follows does not change the report.
\<close>

definition main ::
  "(int \<Rightarrow> int \<Rightarrow> matrix \<Rightarrow> error + nat list) \<Rightarrow> ('u::linorder, 'd::linorder) frame \<Rightarrow>
     bool \<Rightarrow> int \<Rightarrow> int \<Rightarrow> error + ('u \<times> nat \<times> nat) list" where
  "main fit_predict table no_rolling window clusters =
     (case load_data table of
        Inl e \<Rightarrow> Inl e
      | Inr df0 \<Rightarrow>
          (case prepare_features df0 (\<not> no_rolling) window of
             Inl e \<Rightarrow> Inl e
           | Inr (df1, features_scaled, feature_cols, weights) \<Rightarrow>
               (case run_kmeans_and_risk_levels fit_predict df1 features_scaled feature_cols
                       weights clusters 42 of
                  Inl e \<Rightarrow> Inl e
                | Inr df \<Rightarrow>
                    (let latest_date = series_max (map date (rows df));
                         df_latest = filter (\<lambda>r. Some (date r) = latest_date) (rows df)
                     in Inr (map (\<lambda>r. (barangay_id r, risk_level r, cluster r)) df_latest)))))"

section \<open>Append mode of the fetch script\<close>

text \<open>
  \<^verbatim>\<open>src/ai/fetch_pipeline_data.py\<close>, lines 240 to 248. Here a table has any columns:
  it is its number of rows and its columns in order, each a name with one cell per row;
  a null cell (\<^verbatim>\<open>pd.NA\<close>, NaN) is \<open>None\<close>.
\<close>

record 'c table =
  n_rows :: nat
  cols :: "(string \<times> 'c option list) list"

text \<open>The loop \<^verbatim>\<open>for c in df.columns: if c not in existing.columns: existing[c] = pd.NA\<close>.\<close>

definition add_null_columns :: "string list \<Rightarrow> 'c table \<Rightarrow> 'c table" where
  "add_null_columns names existing =
     fold (\<lambda>c t. if c \<notin> set (map fst (cols t))
                  then t\<lparr>cols := cols t @ [(c, replicate (n_rows t) None)]\<rparr>
                  else t)
          names existing"




section \<open>The smoothing window in days\<close>


section \<open>Example tables\<close>

definition blank_row :: "(nat, int) row" where
  "blank_row = \<lparr>barangay_id = 0, date = 0, temperature = None, facility_distance = None,
     facility_score = None, density = None, population = None, temp_rolling = None,
     cluster = 0, risk_level = 0\<rparr>"

text \<open>A table that has the alias \<^verbatim>\<open>facility_score\<close> only, and no optional column.\<close>

definition alias_table :: "(nat, int) frame" where
  "alias_table =
     \<lparr>columns = [''barangay_id'', ''date'', ''temperature'', ''facility_score''],
      rows = [blank_row\<lparr>barangay_id := 1, date := 1, temperature := Some 30,
                facility_score := Some (1 / 2)\<rparr>]\<rparr>"

text \<open>Two units on one day, one of them with a positive density.\<close>

definition density_table :: "(nat, int) frame" where
  "density_table =
     \<lparr>columns = [''barangay_id'', ''date'', ''temperature'', ''facility_distance'',
                 ''population'', ''density''],
      rows = [blank_row\<lparr>barangay_id := 2, date := 1, temperature := Some 32,
                facility_distance := Some (1 / 2), population := Some 0, density := Some 0\<rparr>,
              blank_row\<lparr>barangay_id := 1, date := 1, temperature := Some 30,
                facility_distance := Some 1, population := Some 1000,
                density := Some (26 / 5)\<rparr>]\<rparr>"

definition density_prepared :: "(nat, int) frame" where
  "density_prepared =
     \<lparr>columns = [''barangay_id'', ''date'', ''temperature'', ''facility_distance'',
                 ''population'', ''density'', ''temp_rolling'', ''facility_score''],
      rows = [blank_row\<lparr>barangay_id := 1, date := 1, temperature := Some 30,
                facility_distance := Some 1, population := Some 1000, density := Some (26 / 5),
                temp_rolling := Some 30, facility_score := Some 1\<rparr>,
              blank_row\<lparr>barangay_id := 2, date := 1, temperature := Some 32,
                facility_distance := Some (1 / 2), population := Some 0, density := Some 0,
                temp_rolling := Some 32, facility_score := Some (1 / 2)\<rparr>]\<rparr>"

text \<open>Two units on one day, without density data, one temperature missing.\<close>

definition single_day_table :: "(nat, int) frame" where
  "single_day_table =
     \<lparr>columns = [''barangay_id'', ''date'', ''temperature'', ''facility_distance'',
                 ''population'', ''density''],
      rows = [blank_row\<lparr>barangay_id := 1, date := 5, temperature := Some 31,
                facility_distance := Some (1 / 4), population := Some 0, density := Some 0\<rparr>,
              blank_row\<lparr>barangay_id := 2, date := 5, temperature := None,
                facility_distance := Some 1, population := Some 0, density := None\<rparr>]\<rparr>"

definition single_day_prepared :: "(nat, int) frame" where
  "single_day_prepared =
     \<lparr>columns = [''barangay_id'', ''date'', ''temperature'', ''facility_distance'',
                 ''population'', ''density'', ''temp_rolling'', ''facility_score''],
      rows = [blank_row\<lparr>barangay_id := 1, date := 5, temperature := Some 31,
                facility_distance := Some (1 / 4), population := Some 0, density := Some 0,
                temp_rolling := Some 31, facility_score := Some (1 / 4)\<rparr>,
              blank_row\<lparr>barangay_id := 2, date := 5, temperature := None,
                facility_distance := Some 1, population := Some 0, density := Some 0,
                temp_rolling := None, facility_score := Some 1\<rparr>]\<rparr>"


text \<open>One unit observed on day 1 and on day 10.\<close>

definition gap_table :: "(nat, int) frame" where
  "gap_table =
     \<lparr>columns = [''barangay_id'', ''date'', ''temperature'', ''facility_distance'',
                 ''population'', ''density''],
      rows = [blank_row\<lparr>barangay_id := 1, date := 1, temperature := Some 30,
                facility_distance := Some 1, population := Some 0, density := Some 0\<rparr>,
              blank_row\<lparr>barangay_id := 1, date := 10, temperature := Some 40,
                facility_distance := Some (1 / 2), population := Some 0, density := Some 0\<rparr>]\<rparr>"



text \<open>A clustering whose outcome is the given list of labels, one per sample.\<close>

definition fixed_labels :: "nat list \<Rightarrow> int \<Rightarrow> int \<Rightarrow> matrix \<Rightarrow> error + nat list" where
  "fixed_labels labels n_clusters random_state X = Inr labels"







text \<open>One unit with two rows on the same day, as after two fetches appended on one day.\<close>

definition dup_table :: "(nat, int) frame" where
  "dup_table =
     \<lparr>columns = [''barangay_id'', ''date'', ''temperature'', ''facility_distance'',
                 ''population'', ''density''],
      rows = [blank_row\<lparr>barangay_id := 1, date := 3, temperature := Some 30,
                facility_distance := Some 1, population := Some 0, density := Some 0\<rparr>,
              blank_row\<lparr>barangay_id := 1, date := 3, temperature := Some 31,
                facility_distance := Some 1, population := Some 0, density := Some 0\<rparr>]\<rparr>"



text \<open>Two tables with both facility columns that differ in \<^verbatim>\<open>facility_score\<close> only.\<close>

definition both_table :: "(nat, int) frame" where
  "both_table =
     \<lparr>columns = [''barangay_id'', ''date'', ''temperature'', ''facility_distance'',
                 ''facility_score'', ''population'', ''density''],
      rows = [blank_row\<lparr>barangay_id := 1, date := 1, temperature := Some 30,
                facility_distance := Some 1, facility_score := Some 9,
                population := Some 0, density := Some 0\<rparr>,
              blank_row\<lparr>barangay_id := 2, date := 1, temperature := Some 32,
                facility_distance := Some (1 / 2), facility_score := Some 8,
                population := Some 0, density := Some 0\<rparr>]\<rparr>"

definition both_table_other :: "(nat, int) frame" where
  "both_table_other =
     \<lparr>columns = [''barangay_id'', ''date'', ''temperature'', ''facility_distance'',
                 ''facility_score'', ''population'', ''density''],
      rows = [blank_row\<lparr>barangay_id := 1, date := 1, temperature := Some 30,
                facility_distance := Some 1, facility_score := None,
                population := Some 0, density := Some 0\<rparr>,
              blank_row\<lparr>barangay_id := 2, date := 1, temperature := Some 32,
                facility_distance := Some (1 / 2), facility_score := Some 100,
                population := Some 0, density := Some 0\<rparr>]\<rparr>"

section \<open>Properties of the schema normalizer\<close>

lemma missing_required_None:
  "missing_required cs [''barangay_id'', ''date'', ''temperature'', ''facility_distance''] = None
     \<longleftrightarrow> ''barangay_id'' \<in> set cs \<and> ''date'' \<in> set cs \<and> ''temperature'' \<in> set cs"
  by simp

lemma columns_assign: "set (columns (assign_column n rs df)) = insert n (set (columns df))"
  by (auto simp: assign_column_def)

lemma rows_assign: "rows (assign_column n rs df) = rs"
  by (simp add: assign_column_def)

lemma columns_defaults:
  "set (columns (load_data_defaults df)) = {''density'', ''population''} \<union> set (columns df)"
  by (auto simp: load_data_defaults_def Let_def columns_assign)

lemma rows_defaults:
  "rows (load_data_defaults df) =
     map (\<lambda>r. r\<lparr>density := (if ''density'' \<in> set (columns df) then density r else Some 0),
                 population := (if ''population'' \<in> set (columns df) then population r
                                else Some 0)\<rparr>)
         (rows df)"
  by (simp add: load_data_defaults_def Let_def columns_assign rows_assign assign_column_def)

text \<open>
  C5. \<^verbatim>\<open>load_data\<close> raises exactly when \<^verbatim>\<open>barangay_id\<close>, \<^verbatim>\<open>date\<close> or
  \<^verbatim>\<open>temperature\<close> is missing, or when neither \<^verbatim>\<open>facility_distance\<close> nor
  \<^verbatim>\<open>facility_score\<close> is there. When it returns, the table has the six canonical
  columns and the identifiers, dates and temperatures it was given; an absent
  \<^verbatim>\<open>population\<close> or \<^verbatim>\<open>density\<close> is 0 in every row and a present one is kept; and
  \<^verbatim>\<open>facility_distance\<close> is the copy of \<^verbatim>\<open>facility_score\<close> when only the alias was
  there, and is kept otherwise.
\<close>

theorem load_data_schema:
  "((\<exists>e. load_data df = Inl e) \<longleftrightarrow>
      (''barangay_id'' \<notin> set (columns df) \<or> ''date'' \<notin> set (columns df) \<or>
       ''temperature'' \<notin> set (columns df) \<or>
       (''facility_distance'' \<notin> set (columns df) \<and> ''facility_score'' \<notin> set (columns df))))
   \<and> (\<forall>d. load_data df = Inr d \<longrightarrow>
         {''barangay_id'', ''date'', ''temperature'', ''facility_distance'',
          ''population'', ''density''} \<subseteq> set (columns d)
       \<and> map barangay_id (rows d) = map barangay_id (rows df)
       \<and> map date (rows d) = map date (rows df)
       \<and> map temperature (rows d) = map temperature (rows df)
       \<and> (''population'' \<notin> set (columns df) \<longrightarrow> (\<forall>r \<in> set (rows d). population r = Some 0))
       \<and> (''density'' \<notin> set (columns df) \<longrightarrow> (\<forall>r \<in> set (rows d). density r = Some 0))
       \<and> (''population'' \<in> set (columns df) \<longrightarrow>
            map population (rows d) = map population (rows df))
       \<and> (''density'' \<in> set (columns df) \<longrightarrow> map density (rows d) = map density (rows df))
       \<and> (''facility_distance'' \<notin> set (columns df) \<longrightarrow>
            map facility_distance (rows d) = map facility_score (rows df))
       \<and> (''facility_distance'' \<in> set (columns df) \<longrightarrow>
            map facility_distance (rows d) = map facility_distance (rows df)))"
proof (cases "missing_required (columns df)
               [''barangay_id'', ''date'', ''temperature'', ''facility_distance'']")
  case (Some col)
  then have "\<not> (''barangay_id'' \<in> set (columns df) \<and> ''date'' \<in> set (columns df)
                \<and> ''temperature'' \<in> set (columns df))"
    using missing_required_None [of "columns df"] by simp
  moreover have "load_data df = Inl (ValueError (''Missing required column: '' @ col))"
    using Some by (simp add: load_data_def)
  ultimately show ?thesis by auto
next
  case None
  then have req: "''barangay_id'' \<in> set (columns df)" "''date'' \<in> set (columns df)"
      "''temperature'' \<in> set (columns df)"
    using missing_required_None [of "columns df"] by simp_all
  show ?thesis
    using None req
    by (auto simp: load_data_def columns_defaults rows_defaults columns_assign rows_assign o_def)
qed

theorem load_data_schema_witness:
  "load_data alias_table =
     Inr \<lparr>columns = [''barangay_id'', ''date'', ''temperature'', ''facility_score'',
                     ''facility_distance'', ''density'', ''population''],
          rows = [blank_row\<lparr>barangay_id := 1, date := 1, temperature := Some 30,
                    facility_score := Some (1 / 2), facility_distance := Some (1 / 2),
                    density := Some 0, population := Some 0\<rparr>]\<rparr>
   \<and> ''facility_distance'' \<notin> set (columns alias_table)
   \<and> map facility_distance (rows (projr (load_data alias_table)))
       = map facility_score (rows alias_table)"
proof -
  have h: "load_data alias_table =
     Inr \<lparr>columns = [''barangay_id'', ''date'', ''temperature'', ''facility_score'',
                     ''facility_distance'', ''density'', ''population''],
          rows = [blank_row\<lparr>barangay_id := 1, date := 1, temperature := Some 30,
                    facility_score := Some (1 / 2), facility_distance := Some (1 / 2),
                    density := Some 0, population := Some 0\<rparr>]\<rparr>"
    by code_simp
  have c: "''facility_distance'' \<notin> set (columns alias_table)"
    by (simp add: alias_table_def)
  from load_data_schema [of alias_table] h c show ?thesis
    by simp
qed

section \<open>Properties of \<^verbatim>\<open>prepare_features\<close>\<close>

lemma map_map2_left:
  assumes "length ys = length xs" and "\<And>x y. g (f x y) = h x"
  shows "map g (map2 f xs ys) = map h xs"
  using assms(1) by (induction ys xs rule: list_induct2) (simp_all add: assms(2))

lemma map_map2_right:
  assumes "length ys = length xs" and "\<And>x y. g (f x y) = h y"
  shows "map g (map2 f xs ys) = map h ys"
  using assms(1) by (induction ys xs rule: list_induct2) (simp_all add: assms(2))

lemma length_groupby_transform [simp]: "length (groupby_transform k v f rs) = length rs"
  by (simp add: groupby_transform_def)

lemma length_temp_rolling_column [simp]:
  "length (temp_rolling_column b w rs) = length rs"
  by (simp add: temp_rolling_column_def)

lemma length_fillna_mean [simp]: "length (fillna_mean k X) = length X"
  by (simp add: fillna_mean_def Let_def)

lemma length_assembled_features [simp]: "length (assembled_features fc rs) = length rs"
  by (simp add: assembled_features_def)

text \<open>The rows that \<^verbatim>\<open>prepare_features\<close> returns, for the sorted rows and their smoothed column.\<close>

lemma prepare_features_Inr:
  fixes df :: "('u::linorder, 'd::linorder) frame"
  defines "srt \<equiv> sort_key (\<lambda>r. (barangay_id r, date r)) (rows df)"
  defines "rolling \<equiv> \<lambda>ur. ur \<and> 1 < length (remdups (map date srt))"
  assumes ok: "prepare_features df ur w = Inr (d, X, fcols, ws)"
  shows "{''barangay_id'', ''date'', ''temperature'', ''facility_distance'', ''density''} \<subseteq> set (columns df)"
    and "rolling ur \<longrightarrow> 1 \<le> w"
    and "rows d = map (\<lambda>r. r\<lparr>density := to_numeric_fillna (density r)\<rparr>)
                   (map (\<lambda>r. r\<lparr>facility_score := facility_distance r\<rparr>)
                     (map2 (\<lambda>r v. r\<lparr>temp_rolling := v\<rparr>) srt
                        (temp_rolling_column (rolling ur) (nat w) srt)))"
    and "fcols = (if density_gt_0_any (rows d) then [''temp_rolling'', ''facility_score'', ''density'']
                 else [''temp_rolling'', ''facility_score''])"
    and "ws = (if density_gt_0_any (rows d) then [1 / 3, 1 / 3, 1 / 3] else [1 / 2, 1 / 2])"
    and "scaled_features fcols (rows d) = Inr X"
  using ok unfolding prepare_features_def Let_def srt_def rolling_def
  by (auto simp: rows_assign split: if_splits sum.splits)

lemma scaled_features_Inr:
  "rs \<noteq> [] \<Longrightarrow> \<exists>X. scaled_features fc rs = Inr X"
  by (simp add: scaled_features_def fit_transform_def assembled_features_def fillna_mean_def Let_def)

lemma nunique_card: "length (remdups (map date (sort_key k rs))) = card (date ` set rs)"
  by (simp add: length_remdups_card_conv)

lemma scaled_features_InlD: "scaled_features fc rs = Inl e \<Longrightarrow> rs = []"
  using scaled_features_Inr [of rs fc] by (cases "rs = []") auto

lemma sort_key_Nil_iff [simp]: "sort_key k xs = [] \<longleftrightarrow> xs = []"
  by (metis length_sort length_0_conv)

lemma temp_rolling_column_Nil_iff [simp]: "temp_rolling_column b w rs = [] \<longleftrightarrow> rs = []"
  by (metis length_temp_rolling_column length_0_conv)

lemma prepare_features_InlD:
  fixes df :: "('u::linorder, 'd::linorder) frame"
  assumes "prepare_features df ur w = Inl e"
  shows "\<not> {''barangay_id'', ''date'', ''temperature'', ''facility_distance'', ''density''}
             \<subseteq> set (columns df)
         \<or> rows df = [] \<or> (ur \<and> 1 < card (date ` set (rows df)) \<and> w < 1)"
  using assms unfolding prepare_features_def Let_def nunique_card
  by (auto simp: rows_assign split: if_splits sum.splits dest!: scaled_features_InlD)

lemma prepare_features_succeeds:
  fixes df :: "('u::linorder, 'd::linorder) frame"
  assumes "{''barangay_id'', ''date'', ''temperature'', ''facility_distance'', ''density''} \<subseteq> set (columns df)"
    and "rows df \<noteq> []"
    and "ur \<and> 1 < card (date ` set (rows df)) \<longrightarrow> 1 \<le> w"
  shows "\<exists>d X fcols ws. prepare_features df ur w = Inr (d, X, fcols, ws)"
proof (cases "prepare_features df ur w")
  case (Inl e)
  from prepare_features_InlD [OF this] assms show ?thesis by auto
next
  case (Inr res)
  then show ?thesis by (cases res) auto
qed

lemma prepare_features_columns:
  fixes df :: "('u::linorder, 'd::linorder) frame"
  defines "srt \<equiv> sort_key (\<lambda>r. (barangay_id r, date r)) (rows df)"
  assumes ok: "prepare_features df ur w = Inr (d, X, fcols, ws)"
  shows "map barangay_id (rows d) = map barangay_id srt"
    and "map date (rows d) = map date srt"
    and "map temperature (rows d) = map temperature srt"
    and "map facility_distance (rows d) = map facility_distance srt"
    and "map facility_score (rows d) = map facility_distance srt"
    and "map density (rows d) = map (\<lambda>r. to_numeric_fillna (density r)) srt"
    and "map temp_rolling (rows d) =
           temp_rolling_column (ur \<and> 1 < card (date ` set (rows df))) (nat w) srt"
    and "length (rows d) = length (rows df)"
proof -
  let ?tr = "temp_rolling_column (ur \<and> 1 < length (remdups (map date srt))) (nat w) srt"
  have len: "length ?tr = length srt" by simp
  have r: "rows d = map2 (\<lambda>r v. r\<lparr>temp_rolling := v, facility_score := facility_distance r,
                                   density := to_numeric_fillna (density r)\<rparr>) srt ?tr"
    using prepare_features_Inr(3) [OF ok] by (simp add: srt_def comp_def case_prod_unfold)
  show "map barangay_id (rows d) = map barangay_id srt"
    unfolding r by (rule map_map2_left [OF len]) simp
  show "map date (rows d) = map date srt"
    unfolding r by (rule map_map2_left [OF len]) simp
  show "map temperature (rows d) = map temperature srt"
    unfolding r by (rule map_map2_left [OF len]) simp
  show "map facility_distance (rows d) = map facility_distance srt"
    unfolding r by (rule map_map2_left [OF len]) simp
  show "map facility_score (rows d) = map facility_distance srt"
    unfolding r by (rule map_map2_left [OF len]) simp
  show "map density (rows d) = map (\<lambda>r. to_numeric_fillna (density r)) srt"
    unfolding r by (rule map_map2_left [OF len]) simp
  have "map temp_rolling (rows d) = map (\<lambda>v. v) ?tr"
    unfolding r by (rule map_map2_right [OF len]) simp
  then show "map temp_rolling (rows d) =
           temp_rolling_column (ur \<and> 1 < card (date ` set (rows df))) (nat w) srt"
    by (simp add: srt_def nunique_card)
  show "length (rows d) = length (rows df)"
    unfolding r by (simp add: srt_def)
qed

lemma density_gt_0_any_iff:
  "density_gt_0_any rs \<longleftrightarrow> (\<exists>x \<in> set (map density rs). \<exists>v. x = Some v \<and> 0 < v)"
  by (auto simp: density_gt_0_any_def list_ex_iff split: option.splits)

lemma has_density_input:
  fixes df :: "('u::linorder, 'd::linorder) frame"
  assumes ok: "prepare_features df ur w = Inr (d, X, fcols, ws)"
  shows "density_gt_0_any (rows d) \<longleftrightarrow> (\<exists>r \<in> set (rows df). \<exists>v. density r = Some v \<and> 0 < v)"
  unfolding density_gt_0_any_iff prepare_features_columns(6) [OF ok]
  by (auto simp: to_numeric_fillna_def split: option.splits)

lemma scaled_features_shape:
  assumes "scaled_features fc rs = Inr X"
  shows "length X = length rs" and "\<forall>xr \<in> set X. length xr = length fc"
  using assms
  by (auto simp: scaled_features_def fit_transform_def assembled_features_def fillna_mean_def
        Let_def split: if_splits)

text \<open>
  C1. The feature set is chosen once for the run. When some row of the input has a
  density above 0 (a missing or non-numeric density counting as 0), the features are
  \<^verbatim>\<open>temp_rolling, facility_score, density\<close> with weights 1/3 each; otherwise they
  are \<^verbatim>\<open>temp_rolling, facility_score\<close> with weights 1/2 each. The weights sum to 1,
  there is one weight per feature name, and every row of the scaled matrix has one
  entry per feature name.
\<close>

theorem feature_set_global:
  fixes df :: "('u::linorder, 'd::linorder) frame"
  assumes ok: "prepare_features df use_rolling window = Inr (d, X, feature_cols, weights)"
  shows "(if \<exists>r \<in> set (rows df). \<exists>v. density r = Some v \<and> 0 < v
          then feature_cols = [''temp_rolling'', ''facility_score'', ''density'']
             \<and> weights = [1 / 3, 1 / 3, 1 / 3]
          else feature_cols = [''temp_rolling'', ''facility_score'']
             \<and> weights = [1 / 2, 1 / 2])
       \<and> sum_list weights = 1
       \<and> length weights = length feature_cols
       \<and> length X = length (rows df)
       \<and> (\<forall>xr \<in> set X. length xr = length feature_cols)"
  using prepare_features_Inr(4,5) [OF ok] has_density_input [OF ok]
    scaled_features_shape [OF prepare_features_Inr(6) [OF ok]]
    prepare_features_columns(8) [OF ok]
  by (auto split: if_splits)

theorem feature_set_global_witness:
  "prepare_features density_table True 7
     = Inr (density_prepared, [[Some 0, Some 1, Some 1], [Some 1, Some 0, Some 0]],
            [''temp_rolling'', ''facility_score'', ''density''], [1 / 3, 1 / 3, 1 / 3])
   \<and> (\<exists>r \<in> set (rows density_table). \<exists>v. density r = Some v \<and> 0 < v)
   \<and> sum_list [1 / 3, 1 / 3, 1 / 3 :: real] = 1"
proof -
  have h: "prepare_features density_table True 7
     = Inr (density_prepared, [[Some 0, Some 1, Some 1], [Some 1, Some 0, Some 0]],
            [''temp_rolling'', ''facility_score'', ''density''], [1 / 3, 1 / 3, 1 / 3])"
    by code_simp
  have "\<exists>r \<in> set (rows density_table). \<exists>v. density r = Some v \<and> 0 < v"
    by (simp add: density_table_def blank_row_def) (rule exI [of _ "26 / 5"]; simp)
  with feature_set_global [OF h] h show ?thesis by simp
qed

text \<open>
  C7. When smoothing is disabled, or the input has exactly one distinct date, every row
  of the returned table has \<^verbatim>\<open>temp_rolling\<close> equal to its raw temperature (the rows
  are those of the input sorted by unit and date); and the call does return when the
  table is not empty and has the columns that are read.
\<close>

theorem raw_temperature_when_not_smoothed:
  fixes df :: "('u::linorder, 'd::linorder) frame"
  assumes "\<not> use_rolling \<or> card (date ` set (rows df)) = 1"
  shows "(\<forall>d X feature_cols weights.
            prepare_features df use_rolling window = Inr (d, X, feature_cols, weights) \<longrightarrow>
              (\<forall>r \<in> set (rows d). temp_rolling r = temperature r)
            \<and> map temp_rolling (rows d)
                = map temperature (sort_key (\<lambda>r. (barangay_id r, date r)) (rows df)))
       \<and> ({''barangay_id'', ''date'', ''temperature'', ''facility_distance'', ''density''}
              \<subseteq> set (columns df) \<and> rows df \<noteq> [] \<longrightarrow>
            (\<exists>d X feature_cols weights.
               prepare_features df use_rolling window = Inr (d, X, feature_cols, weights)))"
proof (intro conjI allI impI)
  fix d X feature_cols weights
  assume ok: "prepare_features df use_rolling window = Inr (d, X, feature_cols, weights)"
  have nr: "\<not> (use_rolling \<and> 1 < card (date ` set (rows df)))" using assms by auto
  show eq: "map temp_rolling (rows d)
                = map temperature (sort_key (\<lambda>r. (barangay_id r, date r)) (rows df))"
    using prepare_features_columns(7) [OF ok] nr by (auto simp: temp_rolling_column_def)
  then have "map temp_rolling (rows d) = map temperature (rows d)"
    using prepare_features_columns(3) [OF ok] by simp
  then show "\<forall>r \<in> set (rows d). temp_rolling r = temperature r"
    by (simp add: map_eq_conv)
next
  assume "{''barangay_id'', ''date'', ''temperature'', ''facility_distance'', ''density''}
              \<subseteq> set (columns df) \<and> rows df \<noteq> []"
  then show "\<exists>d X feature_cols weights.
               prepare_features df use_rolling window = Inr (d, X, feature_cols, weights)"
    using assms prepare_features_succeeds [of df use_rolling window] by auto
qed

theorem raw_temperature_when_not_smoothed_witness:
  "card (date ` set (rows single_day_table)) = 1
   \<and> prepare_features single_day_table True 7
       = Inr (single_day_prepared, [[Some 0, Some 0], [Some 0, Some 1]],
              [''temp_rolling'', ''facility_score''], [1 / 2, 1 / 2])
   \<and> map temp_rolling (rows single_day_prepared)
       = map temperature (sort_key (\<lambda>r. (barangay_id r, date r)) (rows single_day_table))
   \<and> map temp_rolling (rows single_day_prepared) = [Some 31, None]"
proof -
  have c: "card (date ` set (rows single_day_table)) = 1"
    by (simp add: single_day_table_def blank_row_def)
  then have h1: "\<not> True \<or> card (date ` set (rows single_day_table)) = 1"
    by simp
  have v: "map temp_rolling (rows single_day_prepared) = [Some 31, None]"
    by (simp add: single_day_prepared_def blank_row_def)
  have h2: "prepare_features single_day_table True 7
       = Inr (single_day_prepared, [[Some 0, Some 0], [Some 0, Some 1]],
              [''temp_rolling'', ''facility_score''], [1 / 2, 1 / 2])"
    by code_simp
  from raw_temperature_when_not_smoothed [OF h1, of 7] h2
  have "map temp_rolling (rows single_day_prepared)
       = map temperature (sort_key (\<lambda>r. (barangay_id r, date r)) (rows single_day_table))"
    by blast
  with c h2 v show ?thesis by simp
qed

subsection \<open>Min-max scaling\<close>




lemma nanmin_None: "present xs = [] \<Longrightarrow> nanmin xs = None"
  by (simp add: nanmin_def)

lemma scale_cell_None [simp]: "scale_cell p None = None"
  by (cases p) (auto simp: scale_cell_def)








subsection \<open>Temporal smoothing\<close>







lemma map_pair_cong:
  assumes "map f xs = map f ys" and "map g xs = map g ys"
  shows "map (\<lambda>r. (f r, g r)) xs = map (\<lambda>r. (f r, g r)) ys"
proof -
  have "length xs = length ys" using assms(1) by (metis length_map)
  then show ?thesis using assms
    by (induction xs ys rule: list_induct2) auto
qed




section \<open>Properties of the risk level mapper\<close>

lemma rank_first_nth:
  assumes "i < length ss"
  shows "rank_first ss ! i
           = Suc (card {j. j < length ss \<and> (ss ! j < ss ! i \<or> (ss ! j = ss ! i \<and> j < i))})"
proof -
  let ?P = "\<lambda>j. ss ! j < ss ! i \<or> (ss ! j = ss ! i \<and> j < i)"
  have "length (filter ?P [0..<length ss]) = card (set (filter ?P [0..<length ss]))"
    by (rule distinct_card [symmetric]) simp
  also have "set (filter ?P [0..<length ss]) = {j. j < length ss \<and> ?P j}"
    by auto
  finally show ?thesis using assms by (simp add: rank_first_def)
qed

lemma strict_sorted_nth_less_iff:
  fixes cs :: "'a::linorder list"
  assumes "sorted_wrt (<) cs" and "i < length cs" and "j < length cs"
  shows "cs ! j < cs ! i \<longleftrightarrow> j < i"
proof
  assume "j < i"
  then show "cs ! j < cs ! i" using assms by (simp add: sorted_wrt_nth_less)
next
  assume lt: "cs ! j < cs ! i"
  show "j < i"
  proof (rule ccontr)
    assume "\<not> j < i"
    then have "i = j \<or> i < j" by auto
    then have "cs ! i \<le> cs ! j"
      using assms sorted_wrt_nth_less [of "(<)" cs i j] by auto
    with lt show False by simp
  qed
qed

text \<open>
  The rank of the entry of a cluster, for strictly ascending labels: one more than the
  number of labels that come before it by severity, then by label.
\<close>

lemma rank_first_by_label:
  fixes cs :: "nat list" and sev :: "nat \<Rightarrow> real"
  assumes st: "sorted_wrt (<) cs" and i: "i < length cs"
  shows "rank_first (map sev cs) ! i
           = Suc (card {c \<in> set cs. sev c < sev (cs ! i) \<or> (sev c = sev (cs ! i) \<and> c < cs ! i)})"
proof -
  let ?n = "length cs"
  let ?J = "{j. j < ?n \<and> (sev (cs ! j) < sev (cs ! i) \<or> (sev (cs ! j) = sev (cs ! i) \<and> j < i))}"
  let ?C = "{c \<in> set cs. sev c < sev (cs ! i) \<or> (sev c = sev (cs ! i) \<and> c < cs ! i)}"
  have di: "distinct cs" using st by (simp add: strict_sorted_iff)
  have "rank_first (map sev cs) ! i
          = Suc (card {j. j < length (map sev cs) \<and>
                  (map sev cs ! j < map sev cs ! i \<or> (map sev cs ! j = map sev cs ! i \<and> j < i))})"
    using i by (intro rank_first_nth) simp
  also have "{j. j < length (map sev cs) \<and>
                  (map sev cs ! j < map sev cs ! i \<or> (map sev cs ! j = map sev cs ! i \<and> j < i))} = ?J"
    using i by auto
  finally have r: "rank_first (map sev cs) ! i = Suc (card ?J)" .
  have img: "(\<lambda>j. cs ! j) ` ?J = ?C"
  proof (intro set_eqI iffI)
    fix c assume "c \<in> (\<lambda>j. cs ! j) ` ?J"
    then obtain j where j: "j \<in> ?J" "c = cs ! j" by auto
    then show "c \<in> ?C"
      using strict_sorted_nth_less_iff [OF st i, of j] by auto
  next
    fix c assume c: "c \<in> ?C"
    then obtain j where j: "j < ?n" "c = cs ! j" by (auto simp: in_set_conv_nth)
    with c have "j \<in> ?J"
      using strict_sorted_nth_less_iff [OF st i, of j] by auto
    with j show "c \<in> (\<lambda>j. cs ! j) ` ?J" by auto
  qed
  have "inj_on (\<lambda>j. cs ! j) ?J"
    using di by (auto simp: inj_on_def nth_eq_iff_index_eq)
  then have "card ((\<lambda>j. cs ! j) ` ?J) = card ?J" by (rule card_image)
  with img r show ?thesis by simp
qed

lemma present_all_Some: "list_all (\<lambda>s. s \<noteq> None) xs \<Longrightarrow> present xs = map the xs"
  by (induction xs rule: present.induct) auto

lemma map_cluster_rank_Inr:
  "map_cluster_rank cr rs = Inr rs' \<Longrightarrow>
     rs' = map (\<lambda>r. r\<lparr>risk_level := the (map_of cr (cluster r))\<rparr>) rs
     \<and> (\<forall>r \<in> set rs. map_of cr (cluster r) \<noteq> None)"
  by (induction rs arbitrary: rs') (auto split: option.splits sum.splits)

lemma map_cluster_rank_total:
  "(\<forall>r \<in> set rs. map_of cr (cluster r) \<noteq> None) \<Longrightarrow> \<exists>rs'. map_cluster_rank cr rs = Inr rs'"
  by (induction rs) (auto split: option.splits sum.splits)

lemma cell_risk_level [simp]: "cell f (r\<lparr>risk_level := l\<rparr>) = cell f r"
  by (simp add: cell_def)

lemma severity_score_risk_level:
  "severity_score fc ws (map (\<lambda>r. r\<lparr>risk_level := g r\<rparr>) rs) c = severity_score fc ws rs c"
  by (simp add: severity_score_def cluster_means_def filter_map o_def)

lemma run_kmeans_unfold:
  assumes ok: "run_kmeans_and_risk_levels km df X fc ws k seed = Inr d"
  shows "\<exists>labels. km k seed X = Inr labels \<and> length labels = length (rows df)
           \<and> list_all (\<lambda>s. s \<noteq> None)
                (map (severity_score fc ws (map2 (\<lambda>r c. r\<lparr>cluster := c\<rparr>) (rows df) labels))
                     (sort (remdups labels)))
           \<and> map_cluster_rank
                (zip (sort (remdups labels))
                   (rank_first (present
                      (map (severity_score fc ws (map2 (\<lambda>r c. r\<lparr>cluster := c\<rparr>) (rows df) labels))
                           (sort (remdups labels))))))
                (map2 (\<lambda>r c. r\<lparr>cluster := c\<rparr>) (rows df) labels) = Inr (rows d)"
proof (cases "km k seed X")
  case (Inl e)
  with ok show ?thesis by (simp add: run_kmeans_and_risk_levels_def)
next
  case (Inr labels)
  let ?rows1 = "map2 (\<lambda>r c. r\<lparr>cluster := c\<rparr>) (rows df) labels"
  let ?sv = "map (severity_score fc ws ?rows1) (sort (remdups labels))"
  have len: "length labels = length (rows df)"
    using ok Inr by (simp add: run_kmeans_and_risk_levels_def split: if_splits)
  have all: "list_all (\<lambda>s. s \<noteq> None) ?sv"
    using ok Inr len
    by (simp add: run_kmeans_and_risk_levels_def Let_def rows_assign split: if_splits)
  have "(case map_cluster_rank (zip (sort (remdups labels)) (rank_first (present ?sv))) ?rows1 of
           Inl e \<Rightarrow> Inl e
         | Inr rs \<Rightarrow> Inr (assign_column ''risk_level'' rs (assign_column ''cluster'' ?rows1 df)))
        = Inr d"
    using ok Inr len all
    by (simp add: run_kmeans_and_risk_levels_def Let_def rows_assign split: if_splits)
  then have "map_cluster_rank (zip (sort (remdups labels)) (rank_first (present ?sv))) ?rows1
               = Inr (rows d)"
    by (auto simp: rows_assign split: sum.splits)
  with Inr len all show ?thesis by blast
qed

text \<open>
  The rows that \<^verbatim>\<open>run_kmeans_and_risk_levels\<close> returns: the given rows with the labels
  of the clustering, and as risk level of a row one more than the number of realized
  clusters that come before its cluster by severity score, then by label.
\<close>

lemma run_kmeans_levels:
  assumes ok: "run_kmeans_and_risk_levels km df X fc ws k seed = Inr d"
  defines "sev \<equiv> \<lambda>c. the (severity_score fc ws (rows d) c)"
  shows "km k seed X = Inr (map cluster (rows d))"
    and "map (\<lambda>r. r\<lparr>cluster := 0, risk_level := 0\<rparr>) (rows d)
           = map (\<lambda>r. r\<lparr>cluster := 0, risk_level := 0\<rparr>) (rows df)"
    and "\<forall>r \<in> set (rows d). severity_score fc ws (rows d) (cluster r) \<noteq> None"
    and "\<forall>r \<in> set (rows d). risk_level r
           = Suc (card {c \<in> cluster ` set (rows d).
                    sev c < sev (cluster r) \<or> (sev c = sev (cluster r) \<and> c < cluster r)})"
proof -
  from run_kmeans_unfold [OF ok] obtain labels where
    km: "km k seed X = Inr labels" and len: "length labels = length (rows df)"
    and allsome: "list_all (\<lambda>s. s \<noteq> None)
                (map (severity_score fc ws (map2 (\<lambda>r c. r\<lparr>cluster := c\<rparr>) (rows df) labels))
                     (sort (remdups labels)))"
    and mcr: "map_cluster_rank
                (zip (sort (remdups labels))
                   (rank_first (present
                      (map (severity_score fc ws (map2 (\<lambda>r c. r\<lparr>cluster := c\<rparr>) (rows df) labels))
                           (sort (remdups labels))))))
                (map2 (\<lambda>r c. r\<lparr>cluster := c\<rparr>) (rows df) labels) = Inr (rows d)"
    by blast
  let ?rows1 = "map2 (\<lambda>r c. r\<lparr>cluster := c\<rparr>) (rows df) labels"
  let ?cs = "sort (remdups labels)"
  let ?sev1 = "\<lambda>c. the (severity_score fc ws ?rows1 c)"
  let ?ranks = "rank_first (map ?sev1 ?cs)"
  let ?cr = "zip ?cs ?ranks"
  have pres: "present (map (severity_score fc ws ?rows1) ?cs) = map ?sev1 ?cs"
    using present_all_Some [OF allsome] by (simp add: o_def)
  have mcr': "map_cluster_rank ?cr ?rows1 = Inr (rows d)"
    using mcr by (simp only: pres)
  have rd: "rows d = map (\<lambda>r. r\<lparr>risk_level := the (map_of ?cr (cluster r))\<rparr>) ?rows1"
    using map_cluster_rank_Inr [OF mcr'] by blast
  have cl1: "map cluster ?rows1 = labels"
    using map_map2_right [OF len, of cluster "\<lambda>r c. r\<lparr>cluster := c\<rparr>" "\<lambda>c. c"] by simp
  have cl: "map cluster (rows d) = labels"
    unfolding rd using cl1 by (simp add: o_def)
  show "km k seed X = Inr (map cluster (rows d))"
    using km cl by simp
  have "map (\<lambda>r. r\<lparr>cluster := 0, risk_level := 0\<rparr>) ?rows1
          = map (\<lambda>r. r\<lparr>cluster := 0, risk_level := 0\<rparr>) (rows df)"
    by (rule map_map2_left [OF len]) simp
  then show "map (\<lambda>r. r\<lparr>cluster := 0, risk_level := 0\<rparr>) (rows d)
           = map (\<lambda>r. r\<lparr>cluster := 0, risk_level := 0\<rparr>) (rows df)"
    unfolding rd by (simp add: o_def)
  have sevd: "severity_score fc ws (rows d) c = severity_score fc ws ?rows1 c" for c
    unfolding rd by (rule severity_score_risk_level)
  then have sev_eq: "sev = ?sev1" by (simp add: sev_def)
  have setcs: "set ?cs = set labels" by simp
  have st: "sorted_wrt (<) ?cs" by (simp add: strict_sorted_iff)
  have "set (map cluster (rows d)) = set labels"
    by (simp only: cl)
  then have image: "cluster ` set (rows d) = set labels"
    by simp
  show "\<forall>r \<in> set (rows d). severity_score fc ws (rows d) (cluster r) \<noteq> None"
  proof
    fix r assume "r \<in> set (rows d)"
    then have "cluster r \<in> set ?cs" using image by auto
    then show "severity_score fc ws (rows d) (cluster r) \<noteq> None"
      using allsome by (simp add: list_all_iff sevd)
  qed
  show "\<forall>r \<in> set (rows d). risk_level r
           = Suc (card {c \<in> cluster ` set (rows d).
                    sev c < sev (cluster r) \<or> (sev c = sev (cluster r) \<and> c < cluster r)})"
  proof
    fix r assume "r \<in> set (rows d)"
    then obtain q where q: "q \<in> set ?rows1"
        and r: "r = q\<lparr>risk_level := the (map_of ?cr (cluster q))\<rparr>"
      unfolding rd by auto
    have "set (map cluster ?rows1) = set labels"
      by (simp only: cl1)
    then have "cluster q \<in> set labels" using q by force
    then have "cluster q \<in> set ?cs" by simp
    then obtain i where i: "i < length ?cs" "?cs ! i = cluster q"
      unfolding in_set_conv_nth by blast
    have "map_of ?cr (?cs ! i) = Some (?ranks ! i)"
      using i(1) by (intro map_of_zip_nth) (simp_all add: rank_first_def)
    then have "risk_level r = ?ranks ! i" using r i(2) by simp
    also have "\<dots> = Suc (card {c \<in> set ?cs. ?sev1 c < ?sev1 (?cs ! i)
                          \<or> (?sev1 c = ?sev1 (?cs ! i) \<and> c < ?cs ! i)})"
      by (rule rank_first_by_label [OF st i(1)])
    finally show "risk_level r
           = Suc (card {c \<in> cluster ` set (rows d).
                    sev c < sev (cluster r) \<or> (sev c = sev (cluster r) \<and> c < cluster r)})"
      using i(2) r by (simp add: image sev_eq)
  qed
qed








section \<open>Properties of the report\<close>

lemma load_data_rows:
  assumes "load_data df = Inr d"
  shows "map barangay_id (rows d) = map barangay_id (rows df)"
    and "map date (rows d) = map date (rows df)"
  using assms
  by (auto simp: load_data_def rows_defaults rows_assign o_def split: option.splits if_splits)

lemma series_max_Max: "xs \<noteq> [] \<Longrightarrow> series_max xs = Some (Max (set xs))"
proof (cases xs)
  case (Cons x rest)
  then show ?thesis using Max.set_eq_fold [of x rest] by (simp add: series_max_def)
qed simp

lemma map_fst_filter_pairs:
  "map f (filter (\<lambda>r. g r = m) rs)
     = map fst (filter (\<lambda>p. snd p = m) (map (\<lambda>r. (f r, g r)) rs))"
  by (induction rs) auto

lemma mset_filter_key:
  assumes "mset (map (\<lambda>r. (f r, g r)) rs) = mset (map (\<lambda>r. (f r, g r)) qs)"
  shows "mset (map f (filter (\<lambda>r. g r = m) rs)) = mset (map f (filter (\<lambda>r. g r = m) qs))"
proof -
  have "mset (filter (\<lambda>p. snd p = m) (map (\<lambda>r. (f r, g r)) rs))
          = mset (filter (\<lambda>p. snd p = m) (map (\<lambda>r. (f r, g r)) qs))"
    using arg_cong [OF assms, of "filter_mset (\<lambda>p. snd p = m)"] by simp
  from arg_cong [OF this, of "image_mset fst"]
  have "mset (map fst (filter (\<lambda>p. snd p = m) (map (\<lambda>r. (f r, g r)) rs)))
          = mset (map fst (filter (\<lambda>p. snd p = m) (map (\<lambda>r. (f r, g r)) qs)))"
    by (simp only: mset_map)
  then show ?thesis by (simp only: map_fst_filter_pairs [symmetric])
qed

lemma mset_pairs_cong:
  assumes "map f xs = map f ys" and "map g xs = map g ys"
  shows "mset (map (\<lambda>r. (f r, g r)) xs) = mset (map (\<lambda>r. (f r, g r)) ys)"
  using map_pair_cong [OF assms] by simp

lemma erased_rows_keys:
  assumes "map (\<lambda>r. r\<lparr>cluster := 0, risk_level := 0\<rparr>) xs
             = map (\<lambda>r. r\<lparr>cluster := 0, risk_level := 0\<rparr>) ys"
  shows "map barangay_id xs = map barangay_id ys" and "map date xs = map date ys"
proof -
  have "map barangay_id (map (\<lambda>r. r\<lparr>cluster := 0, risk_level := 0\<rparr>) xs)
          = map barangay_id (map (\<lambda>r. r\<lparr>cluster := 0, risk_level := 0\<rparr>) ys)"
    by (simp only: assms)
  then show "map barangay_id xs = map barangay_id ys" by (simp add: o_def)
  have "map date (map (\<lambda>r. r\<lparr>cluster := 0, risk_level := 0\<rparr>) xs)
          = map date (map (\<lambda>r. r\<lparr>cluster := 0, risk_level := 0\<rparr>) ys)"
    by (simp only: assms)
  then show "map date xs = map date ys" by (simp add: o_def)
qed

text \<open>The stages of a run of \<^verbatim>\<open>main\<close> that returns.\<close>

lemma main_Inr:
  assumes "main km table no_rolling window clusters = Inr out"
  shows "\<exists>df0 df1 X fc ws d.
           load_data table = Inr df0
         \<and> prepare_features df0 (\<not> no_rolling) window = Inr (df1, X, fc, ws)
         \<and> run_kmeans_and_risk_levels km df1 X fc ws clusters 42 = Inr d
         \<and> out = map (\<lambda>r. (barangay_id r, risk_level r, cluster r))
                    (filter (\<lambda>r. Some (date r) = series_max (map date (rows d))) (rows d))"
  using assms unfolding main_def Let_def
  by (auto split: sum.splits prod.splits)

lemma scaled_features_rows: "scaled_features fc rs = Inr X \<Longrightarrow> rs \<noteq> []"
  by (auto simp: scaled_features_def fit_transform_def assembled_features_def fillna_mean_def
        Let_def split: if_splits)

text \<open>
  C8, as the code has it. When \<^verbatim>\<open>main\<close> writes a report, the input is not empty,
  the clustered table has the units and dates of the input rows, and the report is the
  rows of the clustered table whose date is the greatest date of the input, projected
  to \<^verbatim>\<open>barangay_id, risk_level, cluster\<close>. It has one row for each input row of
  that date: the units of the report, counted with repetition, are the units of the
  input rows of the latest date. So it has exactly one row per unit of that date when
  no unit has two input rows on it.
\<close>

theorem latest_date_report:
  fixes table :: "('u::linorder, 'd::linorder) frame"
  assumes ok: "main fit_predict table no_rolling window clusters = Inr out"
  shows "rows table \<noteq> []
       \<and> (\<exists>df0 df1 X feature_cols weights d.
             load_data table = Inr df0
           \<and> prepare_features df0 (\<not> no_rolling) window = Inr (df1, X, feature_cols, weights)
           \<and> run_kmeans_and_risk_levels fit_predict df1 X feature_cols weights clusters 42 = Inr d
           \<and> mset (map (\<lambda>r. (barangay_id r, date r)) (rows d))
               = mset (map (\<lambda>r. (barangay_id r, date r)) (rows table))
           \<and> out = map (\<lambda>r. (barangay_id r, risk_level r, cluster r))
                      (filter (\<lambda>r. date r = Max (date ` set (rows table))) (rows d)))
       \<and> mset (map fst out)
           = mset (map barangay_id
                    (filter (\<lambda>r. date r = Max (date ` set (rows table))) (rows table)))
       \<and> (distinct (map barangay_id
                    (filter (\<lambda>r. date r = Max (date ` set (rows table))) (rows table)))
            \<longrightarrow> distinct (map fst out))"
proof -
  let ?key = "\<lambda>r. (barangay_id r, date r)"
  let ?latest = "Max (date ` set (rows table))"
  from main_Inr [OF ok] obtain df0 df1 X fc ws d where
    ld: "load_data table = Inr df0"
    and pf: "prepare_features df0 (\<not> no_rolling) window = Inr (df1, X, fc, ws)"
    and km: "run_kmeans_and_risk_levels fit_predict df1 X fc ws clusters 42 = Inr d"
    and out: "out = map (\<lambda>r. (barangay_id r, risk_level r, cluster r))
                    (filter (\<lambda>r. Some (date r) = series_max (map date (rows d))) (rows d))"
    by blast
  have k0: "mset (map ?key (rows df0)) = mset (map ?key (rows table))"
    by (rule mset_pairs_cong [OF load_data_rows [OF ld]])
  have "mset (map ?key (rows df1)) = mset (map ?key (sort_key ?key (rows df0)))"
    by (rule mset_pairs_cong [OF prepare_features_columns(1,2) [OF pf]])
  then have k1: "mset (map ?key (rows df1)) = mset (map ?key (rows df0))"
    by simp
  have k2: "mset (map ?key (rows d)) = mset (map ?key (rows df1))"
    by (rule mset_pairs_cong [OF erased_rows_keys [OF run_kmeans_levels(2) [OF km]]])
  have keys: "mset (map ?key (rows d)) = mset (map ?key (rows table))"
    using k0 k1 k2 by simp
  have "rows df1 \<noteq> []"
    by (rule scaled_features_rows [OF prepare_features_Inr(6) [OF pf]])
  then have "mset (map ?key (rows df1)) \<noteq> {#}" by simp
  then have ne: "rows table \<noteq> []" using k0 k1 by auto
  then have ned: "rows d \<noteq> []" using keys by auto
  have "set_mset (image_mset snd (mset (map ?key (rows d))))
          = set_mset (image_mset snd (mset (map ?key (rows table))))"
    by (simp only: keys)
  then have dates: "date ` set (rows d) = date ` set (rows table)"
    by (simp add: image_image)
  have "series_max (map date (rows d)) = Some (Max (set (map date (rows d))))"
    using ned by (intro series_max_Max) simp
  then have mx: "series_max (map date (rows d)) = Some ?latest"
    using dates by simp
  have out': "out = map (\<lambda>r. (barangay_id r, risk_level r, cluster r))
                      (filter (\<lambda>r. date r = ?latest) (rows d))"
    unfolding out mx by simp
  have "map fst out = map barangay_id (filter (\<lambda>r. date r = ?latest) (rows d))"
    unfolding out' by (simp add: o_def)
  then have units: "mset (map fst out)
           = mset (map barangay_id (filter (\<lambda>r. date r = ?latest) (rows table)))"
    using mset_filter_key [OF keys, of ?latest] by simp
  have dist: "distinct (map fst out)"
    if "distinct (map barangay_id (filter (\<lambda>r. date r = ?latest) (rows table)))"
    using that mset_eq_imp_distinct_iff [OF units] by simp
  show ?thesis
    using ne ld pf km keys out' units dist by blast
qed

theorem latest_date_report_witness:
  "main (fixed_labels [0, 1]) gap_table False 7 2 = Inr [(1, 2, 1)]
   \<and> mset (map fst [(1 :: nat, 2 :: nat, 1 :: nat)])
       = mset (map barangay_id
                (filter (\<lambda>r. date r = Max (date ` set (rows gap_table))) (rows gap_table)))"
proof -
  have h: "main (fixed_labels [0, 1]) gap_table False 7 2 = Inr [(1, 2, 1)]"
    by code_simp
  from latest_date_report [OF h] h show ?thesis by blast
qed

text \<open>
  C8 as it is stated, with exactly one row per unit, fails when a unit has two rows on
  the latest date: both are reported.
\<close>

theorem one_row_per_unit_counterexample:
  "map barangay_id (rows dup_table) = [1, 1]
   \<and> map date (rows dup_table) = [3, 3]
   \<and> main (fixed_labels [0, 0]) dup_table False 7 1 = Inr [(1, 1, 0), (1, 1, 0)]"
  by code_simp

section \<open>Properties of the append mode\<close>

lemma add_null_columns_n_rows [simp]: "n_rows (add_null_columns names t) = n_rows t"
  unfolding add_null_columns_def
  by (induction names arbitrary: t) simp_all







section \<open>The alias column when both facility columns are present\<close>

lemma insort_key_map_inv:
  assumes "\<And>x. k (u x) = k x"
  shows "insort_key k (u x) (map u ys) = map u (insort_key k x ys)"
  by (induction ys) (simp_all add: assms)

lemma sort_key_map_inv:
  assumes "\<And>x. k (u x) = k x"
  shows "sort_key k (map u xs) = map u (sort_key k xs)"
  using assms by (induction xs) (simp_all add: insort_key_map_inv)

lemma groupby_transform_map_inv:
  assumes "\<And>x. key (u x) = key x" and "\<And>x. val (u x) = val x"
  shows "groupby_transform key val f (map u rs) = groupby_transform key val f rs"
  by (simp add: groupby_transform_def filter_map o_def take_map assms)

lemma temp_rolling_column_erase:
  "temp_rolling_column b n (map (\<lambda>r. r\<lparr>facility_score := None\<rparr>) rs) = temp_rolling_column b n rs"
  by (simp add: temp_rolling_column_def groupby_transform_map_inv o_def)

lemma overwrite_after_erase:
  "map (\<lambda>r. r\<lparr>facility_score := facility_distance r\<rparr>)
       (map2 (\<lambda>r v. r\<lparr>temp_rolling := v\<rparr>) (map (\<lambda>r. r\<lparr>facility_score := None\<rparr>) xs) ys)
   = map (\<lambda>r. r\<lparr>facility_score := facility_distance r\<rparr>)
       (map2 (\<lambda>r v. r\<lparr>temp_rolling := v\<rparr>) xs ys)"
  by (simp add: zip_map1 o_def case_prod_unfold)

lemma columns_rows_update: "columns (d\<lparr>rows := X\<rparr>) = columns d"
  by simp

lemma rows_rows_update: "rows (d\<lparr>rows := X\<rparr>) = X"
  by simp

lemma assign_column_rows_update: "assign_column n R (d\<lparr>rows := Y\<rparr>) = assign_column n R d"
  by (simp add: assign_column_def)

lemma assign_column_inner_rows:
  "assign_column n R (assign_column m (map2 f (map u xs) ys) d)
     = assign_column n R (assign_column m (map2 f xs ys) d)"
  by (simp add: assign_column_def)

lemma map_date_erase: "map date (map (\<lambda>r. r\<lparr>facility_score := None\<rparr>) rs) = map date rs"
  by simp

text \<open>\<^verbatim>\<open>prepare_features\<close> does not read the column \<^verbatim>\<open>facility_score\<close> of its argument.\<close>

lemma prepare_features_erase:
  fixes d :: "('u::linorder, 'd::linorder) frame"
  shows "prepare_features (d\<lparr>rows := map (\<lambda>r. r\<lparr>facility_score := None\<rparr>) (rows d)\<rparr>) ur w
           = prepare_features d ur w"
proof -
  have s: "sort_key (\<lambda>r. (barangay_id r, date r)) (map (\<lambda>r. r\<lparr>facility_score := None\<rparr>) (rows d))
             = map (\<lambda>r. r\<lparr>facility_score := None\<rparr>) (sort_key (\<lambda>r. (barangay_id r, date r)) (rows d))"
    by (rule sort_key_map_inv) simp
  show ?thesis
    unfolding prepare_features_def Let_def
    by (simp only: columns_rows_update rows_rows_update assign_column_rows_update rows_assign
          s map_date_erase temp_rolling_column_erase overwrite_after_erase
          assign_column_inner_rows)
qed

lemma load_data_erase:
  assumes "''facility_distance'' \<in> set (columns d)"
  shows "load_data (d\<lparr>rows := map (\<lambda>r. r\<lparr>facility_score := None\<rparr>) (rows d)\<rparr>)
           = (case load_data d of
                Inl e \<Rightarrow> Inl e
              | Inr x \<Rightarrow> Inr (x\<lparr>rows := map (\<lambda>r. r\<lparr>facility_score := None\<rparr>) (rows x)\<rparr>))"
  using assms
  by (simp add: load_data_def load_data_defaults_def assign_column_def Let_def o_def
        split: option.splits)

lemma load_then_prepare_erase:
  fixes d :: "('u::linorder, 'd::linorder) frame"
  assumes "''facility_distance'' \<in> set (columns d)"
  shows "(case load_data (d\<lparr>rows := map (\<lambda>r. r\<lparr>facility_score := None\<rparr>) (rows d)\<rparr>) of
            Inl e \<Rightarrow> Inl e | Inr x \<Rightarrow> prepare_features x ur w)
         = (case load_data d of Inl e \<Rightarrow> Inl e | Inr x \<Rightarrow> prepare_features x ur w)"
  unfolding load_data_erase [OF assms]
  by (cases "load_data d") (simp_all add: prepare_features_erase)

lemma erased_frames_equal:
  fixes df df' :: "('u, 'd) frame"
  assumes "columns df' = columns df"
    and "map (\<lambda>r. r\<lparr>facility_score := None\<rparr>) (rows df')
           = map (\<lambda>r. r\<lparr>facility_score := None\<rparr>) (rows df)"
  shows "df'\<lparr>rows := map (\<lambda>r. r\<lparr>facility_score := None\<rparr>) (rows df')\<rparr>
           = df\<lparr>rows := map (\<lambda>r. r\<lparr>facility_score := None\<rparr>) (rows df)\<rparr>"
  using assms by (cases df, cases df') simp

lemma main_stages:
  "main km t nr w k =
     (case (case load_data t of Inl e \<Rightarrow> Inl e | Inr x \<Rightarrow> prepare_features x (\<not> nr) w) of
        Inl e \<Rightarrow> Inl e
      | Inr (df1, X, fc, ws) \<Rightarrow>
          (case run_kmeans_and_risk_levels km df1 X fc ws k 42 of
             Inl e \<Rightarrow> Inl e
           | Inr d \<Rightarrow>
               Inr (map (\<lambda>r. (barangay_id r, risk_level r, cluster r))
                      (filter (\<lambda>r. Some (date r) = series_max (map date (rows d))) (rows d)))))"
  by (simp add: main_def Let_def split: sum.splits)

lemma load_data_facility_distance:
  assumes "load_data df = Inr d" and "''facility_distance'' \<in> set (columns df)"
  shows "map facility_distance (rows d) = map facility_distance (rows df)"
  using assms
  by (auto simp: load_data_def rows_defaults rows_assign o_def split: option.splits if_splits)

text \<open>
  C10. Let the input have both \<^verbatim>\<open>facility_distance\<close> and \<^verbatim>\<open>facility_score\<close>.
  \<^verbatim>\<open>load_data\<close> returns \<^verbatim>\<open>facility_distance\<close> as it was given;
  \<^verbatim>\<open>prepare_features\<close> returns \<^verbatim>\<open>facility_score\<close> equal to
  \<^verbatim>\<open>facility_distance\<close> in every row; and for any other input that differs in the
  values of \<^verbatim>\<open>facility_score\<close> only, \<^verbatim>\<open>load_data\<close> followed by
  \<^verbatim>\<open>prepare_features\<close> gives the same table, scaled features, feature names and
  weights (or the same error), and \<^verbatim>\<open>main\<close> gives the same report.
\<close>

theorem facility_score_ignored:
  fixes df df' :: "('u::linorder, 'd::linorder) frame"
  assumes fd: "''facility_distance'' \<in> set (columns df)"
    and fs: "''facility_score'' \<in> set (columns df)"
    and cols: "columns df' = columns df"
    and rws: "map (\<lambda>r. r\<lparr>facility_score := None\<rparr>) (rows df')
                = map (\<lambda>r. r\<lparr>facility_score := None\<rparr>) (rows df)"
  shows "(\<forall>d. load_data df = Inr d \<longrightarrow>
            map facility_distance (rows d) = map facility_distance (rows df))
       \<and> (\<forall>d use_rolling window d1 X feature_cols weights.
            load_data df = Inr d
            \<and> prepare_features d use_rolling window = Inr (d1, X, feature_cols, weights) \<longrightarrow>
              map facility_score (rows d1) = map facility_distance (rows d1)
            \<and> map facility_distance (rows d1)
                = map facility_distance (sort_key (\<lambda>r. (barangay_id r, date r)) (rows d)))
       \<and> (\<forall>use_rolling window.
            (case load_data df' of Inl e \<Rightarrow> Inl e
             | Inr d \<Rightarrow> prepare_features d use_rolling window)
            = (case load_data df of Inl e \<Rightarrow> Inl e
               | Inr d \<Rightarrow> prepare_features d use_rolling window))
       \<and> (\<forall>fit_predict no_rolling window clusters.
            main fit_predict df' no_rolling window clusters
              = main fit_predict df no_rolling window clusters)"
proof -
  have fd': "''facility_distance'' \<in> set (columns df')" using fd cols by simp
  note eq = erased_frames_equal [OF cols rws]
  have pipe: "(case load_data df' of Inl e \<Rightarrow> Inl e | Inr d \<Rightarrow> prepare_features d ur w)
            = (case load_data df of Inl e \<Rightarrow> Inl e | Inr d \<Rightarrow> prepare_features d ur w)"
    for ur w
    using load_then_prepare_erase [OF fd, of ur w] load_then_prepare_erase [OF fd', of ur w]
    by (simp only: eq)
  have m: "main km df' nr w k = main km df nr w k" for km nr w k
    unfolding main_stages by (simp only: pipe)
  have l: "map facility_distance (rows d) = map facility_distance (rows df)"
    if "load_data df = Inr d" for d
    using load_data_facility_distance [OF that fd] .
  have p: "map facility_score (rows d1) = map facility_distance (rows d1)
         \<and> map facility_distance (rows d1)
             = map facility_distance (sort_key (\<lambda>r. (barangay_id r, date r)) (rows d))"
    if "prepare_features d ur w = Inr (d1, X, fc, ws)" for d ur w d1 X fc ws
    using prepare_features_columns(4,5) [OF that] by simp
  show ?thesis
    using l p pipe m by blast
qed

theorem facility_score_ignored_witness:
  "''facility_distance'' \<in> set (columns both_table)
   \<and> ''facility_score'' \<in> set (columns both_table)
   \<and> columns both_table_other = columns both_table
   \<and> map (\<lambda>r. r\<lparr>facility_score := None\<rparr>) (rows both_table_other)
       = map (\<lambda>r. r\<lparr>facility_score := None\<rparr>) (rows both_table)
   \<and> map facility_score (rows both_table_other) \<noteq> map facility_score (rows both_table)
   \<and> main (fixed_labels [0, 1]) both_table False 7 2 = Inr [(1, 1, 0), (2, 2, 1)]
   \<and> main (fixed_labels [0, 1]) both_table_other False 7 2 = Inr [(1, 1, 0), (2, 2, 1)]"
proof -
  have h1: "''facility_distance'' \<in> set (columns both_table)"
    and h2: "''facility_score'' \<in> set (columns both_table)"
    and h3: "columns both_table_other = columns both_table"
    and h4: "map (\<lambda>r. r\<lparr>facility_score := None\<rparr>) (rows both_table_other)
       = map (\<lambda>r. r\<lparr>facility_score := None\<rparr>) (rows both_table)"
    and h5: "map facility_score (rows both_table_other) \<noteq> map facility_score (rows both_table)"
    by (simp_all add: both_table_def both_table_other_def blank_row_def)
  have v: "main (fixed_labels [0, 1]) both_table False 7 2 = Inr [(1, 1, 0), (2, 2, 1)]"
    by code_simp
  from facility_score_ignored [OF h1 h2 h3 h4]
  have "main (fixed_labels [0, 1]) both_table_other False 7 2
          = main (fixed_labels [0, 1]) both_table False 7 2"
    by blast
  with v h1 h2 h3 h4 h5 show ?thesis by simp
qed

end
